theory Spec2Isabelle
  imports Complex_Main "HOL-Library.Word" "HOL-Library.Sublist"
begin

section \<open>JavaScript strings and the built-ins the service uses\<close>

text \<open>
  A JavaScript string is a sequence of UTF-16 code units; \<open>text.length\<close> counts code
  units. Every list of 16-bit words is a string (lone surrogates are allowed).
  ASCII literals of the source are written \<open>str ''...''\<close>.
\<close>

type_synonym jsstring = "16 word list"

definition str :: "string \<Rightarrow> jsstring" where
  "str s = map of_char s"

text \<open>
  The class \<open>\s\<close> of a regular expression, which is also the set that \<open>trim\<close>
  strips: WhiteSpace and LineTerminator of ECMAScript.
\<close>

definition isWhiteSpace :: "16 word \<Rightarrow> bool" where
  "isWhiteSpace c \<longleftrightarrow>
     c = 0x09 \<or> c = 0x0A \<or> c = 0x0B \<or> c = 0x0C \<or> c = 0x0D \<or> c = 0x20 \<or> c = 0xA0 \<or>
     c = 0x1680 \<or> (0x2000 \<le> c \<and> c \<le> 0x200A) \<or> c = 0x2028 \<or> c = 0x2029 \<or>
     c = 0x202F \<or> c = 0x205F \<or> c = 0x3000 \<or> c = 0xFEFF"

text \<open>The class \<open>\w\<close>: \<open>[A-Za-z0-9_]\<close>.\<close>

definition isWordChar :: "16 word \<Rightarrow> bool" where
  "isWordChar c \<longleftrightarrow>
     (0x41 \<le> c \<and> c \<le> 0x5A) \<or> (0x61 \<le> c \<and> c \<le> 0x7A) \<or> (0x30 \<le> c \<and> c \<le> 0x39) \<or> c = 0x5F"

text \<open>The class \<open>[.!?]\<close>.\<close>

definition isSentenceEnd :: "16 word \<Rightarrow> bool" where
  "isSentenceEnd c \<longleftrightarrow> c = 0x2E \<or> c = 0x21 \<or> c = 0x3F"

text \<open>\<open>s.trim()\<close>\<close>

definition trim :: "jsstring \<Rightarrow> jsstring" where
  "trim s = rev (dropWhile isWhiteSpace (rev (dropWhile isWhiteSpace s)))"

text \<open>\<open>s.includes(t)\<close>: \<open>t\<close> occurs in \<open>s\<close> as a contiguous substring.\<close>

fun startsWith :: "jsstring \<Rightarrow> jsstring \<Rightarrow> bool" where
  "startsWith s [] = True"
| "startsWith [] (d # t) = False"
| "startsWith (c # s) (d # t) = (c = d \<and> startsWith s t)"

fun includes_js :: "jsstring \<Rightarrow> jsstring \<Rightarrow> bool" where
  "includes_js [] t = (t = [])"
| "includes_js (c # s) t = (startsWith (c # s) t \<or> includes_js s t)"

text \<open>
  \<open>s.split(/C+/)\<close> for a character class \<open>C\<close>. The pattern matches no empty
  string, so the empty string splits into \<open>[""]\<close>; otherwise each maximal run of \<open>C\<close>
  closes the piece collected so far (\<open>cur\<close>), an empty piece included when the string
  starts with a separator, and the rest after the last separator is the last piece, empty
  when the string ends with one.
\<close>

function split_run :: "(16 word \<Rightarrow> bool) \<Rightarrow> jsstring \<Rightarrow> jsstring \<Rightarrow> jsstring list" where
  "split_run C cur [] = [cur]"
| "split_run C cur (c # cs) =
     (if C c then cur # split_run C [] (dropWhile C cs)
      else split_run C (cur @ [c]) cs)"
  by pat_completeness auto
termination
  by (relation "measure (\<lambda>(C, cur, s). length s)")
     (auto simp: le_imp_less_Suc length_dropWhile_le)

definition split_js :: "(16 word \<Rightarrow> bool) \<Rightarrow> jsstring \<Rightarrow> jsstring list" where
  "split_js C s = split_run C [] s"

text \<open>
  \<open>s.match(/X[\w]+/g)\<close> for a single character \<open>X\<close> (\<open>#\<close> or \<open>@\<close>): the scan
  goes left to right; at \<open>X\<close> followed by a word character the match takes the whole run
  of word characters and the scan resumes after it; anywhere else it moves one code unit
  on. \<open>match\<close> returns \<open>null\<close> when nothing matched.
\<close>

function scan_tags :: "16 word \<Rightarrow> jsstring \<Rightarrow> jsstring list" where
  "scan_tags X [] = []"
| "scan_tags X (c # cs) =
     (if c = X \<and> takeWhile isWordChar cs \<noteq> []
      then (c # takeWhile isWordChar cs) # scan_tags X (dropWhile isWordChar cs)
      else scan_tags X cs)"
  by pat_completeness auto
termination
  by (relation "measure (\<lambda>(X, s). length s)")
     (auto simp: le_imp_less_Suc length_dropWhile_le)

definition match_tags :: "16 word \<Rightarrow> jsstring \<Rightarrow> jsstring list option" where
  "match_tags X s = (if scan_tags X s = [] then None else Some (scan_tags X s))"

text \<open>
  The emoji expression carries the \<open>u\<close> flag: the scan reads code points, a lead
  surrogate followed by a trail surrogate being one code point of two code units.
\<close>

definition isLeadSurrogate :: "16 word \<Rightarrow> bool" where
  "isLeadSurrogate c \<longleftrightarrow> 0xD800 \<le> c \<and> c \<le> 0xDBFF"

definition isTrailSurrogate :: "16 word \<Rightarrow> bool" where
  "isTrailSurrogate c \<longleftrightarrow> 0xDC00 \<le> c \<and> c \<le> 0xDFFF"

definition codePoint :: "16 word \<Rightarrow> 16 word \<Rightarrow> nat" where
  "codePoint hi lo = (unat hi - 0xD800) * 0x400 + (unat lo - 0xDC00) + 0x10000"

definition isEmoji :: "nat \<Rightarrow> bool" where
  "isEmoji cp \<longleftrightarrow>
     (0x1F300 \<le> cp \<and> cp \<le> 0x1F6FF) \<or> (0x1F900 \<le> cp \<and> cp \<le> 0x1F9FF) \<or>
     (0x2600 \<le> cp \<and> cp \<le> 0x26FF) \<or> (0x2700 \<le> cp \<and> cp \<le> 0x27BF)"

fun scan_emojis :: "jsstring \<Rightarrow> jsstring list" where
  "scan_emojis [] = []"
| "scan_emojis [c] = (if isEmoji (unat c) then [[c]] else [])"
| "scan_emojis (c # d # cs) =
     (if isLeadSurrogate c \<and> isTrailSurrogate d
      then (if isEmoji (codePoint c d) then [c, d] # scan_emojis cs else scan_emojis cs)
      else (if isEmoji (unat c) then [c] # scan_emojis (d # cs) else scan_emojis (d # cs)))"

definition match_emojis :: "jsstring \<Rightarrow> jsstring list option" where
  "match_emojis s = (if scan_emojis s = [] then None else Some (scan_emojis s))"

text \<open>\<open>m || []\<close> on the result of \<open>match\<close>.\<close>

definition or_empty :: "'a list option \<Rightarrow> 'a list" where
  "or_empty m = (case m of None \<Rightarrow> [] | Some xs \<Rightarrow> xs)"

text \<open>\<open>[...new Set(xs)]\<close>: the distinct elements in order of first occurrence.\<close>

definition set_spread :: "'a list \<Rightarrow> 'a list" where
  "set_spread xs = fold (\<lambda>x acc. if x \<in> set acc then acc else acc @ [x]) xs []"

text \<open>\<open>xs.join(sep)\<close>\<close>

fun join :: "jsstring \<Rightarrow> jsstring list \<Rightarrow> jsstring" where
  "join sep [] = []"
| "join sep [x] = x"
| "join sep (x # y # ys) = x @ sep @ join sep (y # ys)"

text \<open>
  Numbers. Counts are naturals and scores integers; \<open>Math.round\<close> rounds halves up.
\<close>

definition Math_round :: "rat \<Rightarrow> int" where
  "Math_round x = \<lfloor>x + 1 / 2\<rfloor>"

text \<open>
  A double is modelled by the rational number it denotes. An arithmetic operation of the
  source on doubles returns the double nearest to the exact result, a tie going to the even
  significand: \<open>round_double\<close>, with 53 significant bits. \<open>bit_count n\<close> is the number of
  binary digits of \<open>n\<close> and \<open>binary_exponent x\<close> the exponent \<open>e\<close> with
  \<open>2^e \<le> x < 2^(e+1)\<close>, for positive \<open>x\<close>. The exponent range of a double is not
  modelled: the operands below are counts, lengths of strings and so below \<open>2^53\<close>, and no
  quotient of two of them, nor a small multiple of it, leaves the range of the normal
  doubles.
\<close>

function bit_count :: "int \<Rightarrow> nat" where
  "bit_count n = (if n \<le> 0 then 0 else Suc (bit_count (n div 2)))"
  by pat_completeness auto
termination
  by (relation "measure nat") auto

declare bit_count.simps [simp del]

definition binary_exponent :: "rat \<Rightarrow> int" where
  "binary_exponent x =
     (let (a, b) = quotient_of x;
          e = int (bit_count a) - int (bit_count b)
      in if 2 powi e \<le> x then e else e - 1)"

definition round_half_even :: "rat \<Rightarrow> int" where
  "round_half_even q =
     (let f = \<lfloor>q\<rfloor>; r = q - of_int f
      in if r < 1 / 2 then f else if 1 / 2 < r then f + 1 else if even f then f else f + 1)"

definition round_double :: "rat \<Rightarrow> rat" where
  "round_double x =
     (if x = 0 then 0
      else let ulp = 2 powi (binary_exponent \<bar>x\<bar> - 52)
           in sgn x * of_int (round_half_even (\<bar>x\<bar> / ulp)) * ulp)"

text \<open>
  What a division by zero gives is kept apart from the doubles that are numbers: \<open>0 / 0\<close>
  is \<open>NaN\<close> and \<open>n / 0\<close> is \<open>Infinity\<close> for \<open>n > 0\<close>. \<open>js_div n d\<close> is \<open>n / d\<close> on two
  counts and \<open>js_times100 x\<close> is \<open>x * 100\<close>, each rounded as the source rounds it.
\<close>

datatype jsnum = Num rat | NaN | Infinity

definition js_div :: "nat \<Rightarrow> nat \<Rightarrow> jsnum" where
  "js_div n d =
     (if d = 0 then (if n = 0 then NaN else Infinity)
      else Num (round_double (of_nat n / of_nat d)))"

fun js_times100 :: "jsnum \<Rightarrow> jsnum" where
  "js_times100 (Num r) = Num (round_double (r * 100))"
| "js_times100 NaN = NaN"
| "js_times100 Infinity = Infinity"

section \<open>The feature records\<close>

text \<open>
  One record per extractor, with the fields of the object literal the extractor returns.
  Fields of the same name in different records carry the record's name as a prefix.
  The enumerations list every string the source writes into the field.
\<close>

datatype strength = StrengthNone | Weak | Medium | Strong

datatype platform = General | Twitter | Linkedin

datatype status = Good | TooLong | TooShort

datatype level = Poor | Excellent | Moderate | Difficult | LevelTooShort

datatype complexity = ComplexityLow | ComplexityMedium | ComplexityHigh

datatype tone = Neutral | Positive | Negative

datatype engagement = EngagementLow | EngagementMedium | EngagementHigh

record hashtag_feature =
  hashtags_found :: nat
  hashtags_recommended :: nat
  hashtags_list :: "jsstring list"
  hashtags_density :: jsnum

record mention_feature =
  mentions_found :: nat
  mentions_recommended :: nat
  mentions_list :: "jsstring list"

record cta_feature =
  cta_found :: bool
  cta_strength :: strength
  cta_words :: "jsstring list"
  cta_count :: nat

record length_feature =
  characters :: nat
  length_words :: nat
  length_platform :: platform
  optimal :: jsstring
  length_status :: status

record readability_feature =
  readability_score :: int
  readability_level :: level
  avgWordsPerSentence :: rat
  sentences :: nat
  readability_complexity :: complexity

record sentiment_feature =
  sentiment_tone :: tone
  sentiment_engagement :: engagement
  positiveWords :: nat
  negativeWords :: nat
  engagementWords :: nat

record emoji_feature =
  emojis_found :: nat
  emojis_list :: "jsstring list"
  emojis_density :: jsnum

record analysis =
  hashtags :: hashtag_feature
  mentions :: mention_feature
  callToAction :: cta_feature
  length_rec :: length_feature
  readability :: readability_feature
  sentiment :: sentiment_feature
  emojis :: emoji_feature

section \<open>The extractors\<close>

definition analyzeHashtags :: "jsstring \<Rightarrow> hashtag_feature" where
  "analyzeHashtags text =
     (let hashtags = or_empty (match_tags 0x23 text)
      in \<lparr> hashtags_found = length hashtags,
           hashtags_recommended = (if length hashtags < 3 then 3 else length hashtags),
           hashtags_list = hashtags,
           hashtags_density =
             js_times100 (js_div (length hashtags) (length (split_js isWhiteSpace text))) \<rparr>)"

definition analyzeMentions :: "jsstring \<Rightarrow> mention_feature" where
  "analyzeMentions text =
     (let mentions = or_empty (match_tags 0x40 text)
      in \<lparr> mentions_found = length mentions,
           mentions_recommended = (if length mentions < 2 then 2 else length mentions),
           mentions_list = mentions \<rparr>)"

definition ctaWords :: "jsstring list" where
  "ctaWords = map str
     [''click'', ''buy'', ''shop'', ''download'', ''subscribe'', ''follow'', ''share'',
      ''like'', ''comment'', ''join'', ''sign up'', ''get started'', ''learn more'',
      ''discover'', ''explore'', ''try'', ''watch'', ''read'', ''visit'', ''check out'']"

text \<open>
  \<open>text.toLowerCase()\<close> follows the Unicode case tables, which are no part of the
  repository: the extractors that call it take it as the parameter \<open>toLowerCase\<close>, and
  what is proved holds for every such function. \<open>toLowerCaseASCII\<close> is what it does on
  a text of ASCII characters; the closed examples below use it on such texts.
\<close>

definition toLowerCaseASCII :: "jsstring \<Rightarrow> jsstring" where
  "toLowerCaseASCII s = map (\<lambda>c. if 0x41 \<le> c \<and> c \<le> 0x5A then c + 0x20 else c) s"

definition analyzeCallToAction :: "(jsstring \<Rightarrow> jsstring) \<Rightarrow> jsstring \<Rightarrow> cta_feature" where
  "analyzeCallToAction toLowerCase text =
     (let lowerText = toLowerCase text;
          foundCTAs = filter (\<lambda>cta. includes_js lowerText cta) ctaWords;
          strength = (if length foundCTAs \<ge> 3 then Strong
                      else if length foundCTAs \<ge> 2 then Medium
                      else if length foundCTAs \<ge> 1 then Weak
                      else StrengthNone)
      in \<lparr> cta_found = (length foundCTAs > 0),
           cta_strength = strength,
           cta_words = foundCTAs,
           cta_count = length foundCTAs \<rparr>)"

text \<open>
  \<open>platform\<close>, \<open>optimal\<close> and \<open>status\<close> start as \<open>'general'\<close>, \<open>'140-280'\<close> and
  \<open>'good'\<close>; the last branch below is the one where neither \<open>if\<close> of the source fires.
\<close>

definition analyzeLength :: "jsstring \<Rightarrow> length_feature" where
  "analyzeLength text =
     (let charCount = length text;
          wordCount = length (filter (\<lambda>word. length word > 0) (split_js isWhiteSpace text));
          (platform, optimal, status) =
            (if charCount > 280
             then (Linkedin, str ''100-300'', if charCount > 500 then TooLong else Good)
             else if charCount \<le> 280
             then (Twitter, str ''140-280'', if charCount < 100 then TooShort else Good)
             else (General, str ''140-280'', Good))
      in \<lparr> characters = charCount,
           length_words = wordCount,
           length_platform = platform,
           optimal = optimal,
           length_status = status \<rparr>)"

text \<open>
  In \<open>analyzeReadability\<close> the quotient \<open>words / sentences\<close> is kept exact: comparing it
  with 10, 15 or 20, and rounding ten times it to an integer, give the same answer on the
  double as on the rational, for counts as small as the length of a string. The field
  \<open>avgWordsPerSentence\<close> is the double nearest to the tenth so obtained.
\<close>

definition analyzeReadability :: "jsstring \<Rightarrow> readability_feature" where
  "analyzeReadability text =
     (let sentences = length (filter (\<lambda>s. length (trim s) > 0) (split_js isSentenceEnd text));
          words = length (filter (\<lambda>word. length word > 0) (split_js isWhiteSpace text));
          avg = (if sentences > 0 then of_nat words / of_nat sentences else (0 :: rat));
          (score, level) =
            (if avg > 20 then (100 - 30, Difficult)
             else if avg > 15 then (100 - 15, Moderate)
             else (100 :: int, Excellent));
          (score, level) =
            (if words < 10 then (score - 20, LevelTooShort) else (score, level));
          score = max 0 (min 100 score)
      in \<lparr> readability_score = Math_round (of_int score),
           readability_level = level,
           avgWordsPerSentence = round_double (of_int (Math_round (avg * 10)) / 10),
           sentences = sentences,
           readability_complexity =
             (if avg > 15 then ComplexityHigh
              else if avg > 10 then ComplexityMedium else ComplexityLow) \<rparr>)"

definition positiveWordList :: "jsstring list" where
  "positiveWordList = map str
     [''great'', ''awesome'', ''amazing'', ''excellent'', ''fantastic'', ''love'', ''best'',
      ''perfect'', ''wonderful'', ''incredible'', ''outstanding'', ''brilliant'']"

definition negativeWordList :: "jsstring list" where
  "negativeWordList = map str
     [''bad'', ''terrible'', ''awful'', ''hate'', ''worst'', ''horrible'', ''disappointing'',
      ''failed'', ''broken'', ''useless'']"

definition engagementWordList :: "jsstring list" where
  "engagementWordList = map str
     [''new'', ''exciting'', ''innovative'', ''revolutionary'', ''breakthrough'',
      ''exclusive'', ''limited'', ''special'', ''unique'', ''trending'']"

definition analyzeSentiment :: "(jsstring \<Rightarrow> jsstring) \<Rightarrow> jsstring \<Rightarrow> sentiment_feature" where
  "analyzeSentiment toLowerCase text =
     (let lowerText = toLowerCase text;
          positiveCount = length (filter (\<lambda>word. includes_js lowerText word) positiveWordList);
          negativeCount = length (filter (\<lambda>word. includes_js lowerText word) negativeWordList);
          engagementCount =
            length (filter (\<lambda>word. includes_js lowerText word) engagementWordList);
          tone = (if positiveCount > negativeCount then Positive
                  else if negativeCount > positiveCount then Negative
                  else Neutral);
          engagement = (if engagementCount \<ge> 3 then EngagementHigh
                        else if engagementCount \<ge> 1 then EngagementMedium
                        else EngagementLow)
      in \<lparr> sentiment_tone = tone,
           sentiment_engagement = engagement,
           positiveWords = positiveCount,
           negativeWords = negativeCount,
           engagementWords = engagementCount \<rparr>)"

definition analyzeEmojis :: "jsstring \<Rightarrow> emoji_feature" where
  "analyzeEmojis text =
     (let emojis = or_empty (match_emojis text)
      in \<lparr> emojis_found = length emojis,
           emojis_list = set_spread emojis,
           emojis_density =
             js_times100 (js_div (length emojis) (length (split_js isWhiteSpace text))) \<rparr>)"

section \<open>Suggestions\<close>

datatype priority = High | MediumPriority | Low

record suggestion =
  sug_type :: jsstring
  sug_priority :: priority
  icon :: jsstring
  title :: jsstring
  description :: jsstring
  example :: jsstring

text \<open>A literal between double quotes, as some examples of the source hold.\<close>

definition quoted :: "string \<Rightarrow> jsstring" where
  "quoted s = [0x22] @ str s @ [0x22]"

text \<open>The ten object literals that \<open>generateSuggestions\<close> pushes, in source order.\<close>

definition addHashtags :: suggestion where
  "addHashtags =
     \<lparr> sug_type = str ''hashtags'', sug_priority = High,
       icon = [0xD83C, 0xDFF7, 0xFE0F],
       title = str ''Add Hashtags for Discoverability'',
       description = str ''Include 2-3 relevant hashtags to increase reach and engagement'',
       example = str ''#innovation #tech #socialmedia'' \<rparr>"

definition reduceHashtags :: suggestion where
  "reduceHashtags =
     \<lparr> sug_type = str ''hashtags'', sug_priority = MediumPriority,
       icon = [0x26A0, 0xFE0F],
       title = str ''Reduce Hashtag Count'',
       description =
         str ''Too many hashtags can appear spammy. Keep it to 3-5 relevant ones'',
       example = str ''Focus on your top 3 most relevant hashtags'' \<rparr>"

definition addCallToAction :: suggestion where
  "addCallToAction =
     \<lparr> sug_type = str ''cta'', sug_priority = High,
       icon = [0xD83D, 0xDC46],
       title = str ''Include a Clear Call-to-Action'',
       description = str ''Add a specific action you want your audience to take'',
       example = quoted ''What do you think? Share your thoughts in comments!'' \<rparr>"

definition strengthenCallToAction :: suggestion where
  "strengthenCallToAction =
     \<lparr> sug_type = str ''cta'', sug_priority = MediumPriority,
       icon = [0xD83D, 0xDCAA],
       title = str ''Strengthen Your Call-to-Action'',
       description = str ''Make your call-to-action more compelling and specific'',
       example = str ''Use stronger verbs like '' @ quoted ''discover'' @ str '', '' @
                 quoted ''explore'' @ str '', or '' @ quoted ''join'' \<rparr>"

definition shortenContent :: suggestion where
  "shortenContent =
     \<lparr> sug_type = str ''length'', sug_priority = MediumPriority,
       icon = [0x2702, 0xFE0F],
       title = str ''Shorten Your Content'',
       description =
         str ''Consider breaking long content into multiple posts or key points'',
       example = str ''Aim for 140-280 characters for better engagement'' \<rparr>"

definition addContext :: suggestion where
  "addContext =
     \<lparr> sug_type = str ''length'', sug_priority = Low,
       icon = [0xD83D, 0xDCDD],
       title = str ''Add More Context'',
       description =
         str ''Provide more details or context to engage your audience better'',
       example = str ''Add background information or personal insights'' \<rparr>"

definition tagPeople :: suggestion where
  "tagPeople =
     \<lparr> sug_type = str ''mentions'', sug_priority = MediumPriority,
       icon = [0xD83D, 0xDC65],
       title = str ''Tag Relevant People or Brands'',
       description =
         str ''Mention relevant accounts to increase visibility and engagement'',
       example = str ''@company @influencer or industry leaders'' \<rparr>"

definition addEmojis :: suggestion where
  "addEmojis =
     \<lparr> sug_type = str ''emojis'', sug_priority = Low,
       icon = [0xD83D, 0xDE0A],
       title = str ''Add Emojis for Visual Appeal'',
       description =
         str ''Emojis can increase engagement and make content more approachable'',
       example = [0xD83D, 0xDE80, 0x20, 0x2728, 0x20, 0xD83D, 0xDCA1] @
                 str '' for tech content'' \<rparr>"

definition improveReadability :: suggestion where
  "improveReadability =
     \<lparr> sug_type = str ''readability'', sug_priority = High,
       icon = [0xD83D, 0xDCDA],
       title = str ''Improve Readability'',
       description = str ''Break long sentences into shorter, more digestible chunks'',
       example = str ''Keep sentences under 15-20 words for better engagement'' \<rparr>"

definition engagingLanguage :: suggestion where
  "engagingLanguage =
     \<lparr> sug_type = str ''engagement'', sug_priority = MediumPriority,
       icon = [0xD83D, 0xDD25],
       title = str ''Use More Engaging Language'',
       description = str ''Add excitement and energy to capture attention'',
       example = str ''Use words like '' @ quoted ''amazing'' @ str '', '' @
                 quoted ''breakthrough'' @ str '', '' @ quoted ''exclusive'' \<rparr>"

text \<open>
  \<open>suggestions.push(x)\<close> is \<open>suggestions @ [x]\<close>; each \<open>let\<close> below is one
  \<open>if\<close> statement of the source, in its order. The parameter \<open>text\<close> is not read.
\<close>

definition generateSuggestions :: "analysis \<Rightarrow> jsstring \<Rightarrow> suggestion list" where
  "generateSuggestions a text =
     (let suggestions = [];
          suggestions =
            (if hashtags_found (hashtags a) = 0 then suggestions @ [addHashtags]
             else if hashtags_found (hashtags a) > 5 then suggestions @ [reduceHashtags]
             else suggestions);
          suggestions =
            (if \<not> cta_found (callToAction a) then suggestions @ [addCallToAction]
             else if cta_strength (callToAction a) = Weak
             then suggestions @ [strengthenCallToAction]
             else suggestions);
          suggestions =
            (if length_status (length_rec a) = TooLong then suggestions @ [shortenContent]
             else if length_status (length_rec a) = TooShort then suggestions @ [addContext]
             else suggestions);
          suggestions =
            (if mentions_found (mentions a) = 0 then suggestions @ [tagPeople]
             else suggestions);
          suggestions =
            (if emojis_found (emojis a) = 0 then suggestions @ [addEmojis]
             else suggestions);
          suggestions =
            (if readability_level (readability a) = Difficult
             then suggestions @ [improveReadability]
             else suggestions);
          suggestions =
            (if sentiment_engagement (sentiment a) = EngagementLow
             then suggestions @ [engagingLanguage]
             else suggestions)
      in suggestions)"

section \<open>Score and grade\<close>

text \<open>
  \<open>readability.score * 0.2\<close> is kept exact: for an integer score below \<open>2^50\<close> in
  absolute value the double product rounds to the same integer, exact fifths being never
  within a rounding error of a half.
\<close>

definition calculateEngagementScore :: "analysis \<Rightarrow> int" where
  "calculateEngagementScore a =
     (let score = 50;
          score =
            (if hashtags_found (hashtags a) \<ge> 2 \<and> hashtags_found (hashtags a) \<le> 5
             then score + 15
             else if hashtags_found (hashtags a) \<ge> 1 then score + 10
             else score - 10);
          score =
            (if cta_strength (callToAction a) = Strong then score + 20
             else if cta_strength (callToAction a) = Medium then score + 15
             else if cta_strength (callToAction a) = Weak then score + 10
             else score - 15);
          score =
            (if length_status (length_rec a) = Good then score + 15
             else if length_status (length_rec a) = TooLong then score - 5
             else if length_status (length_rec a) = TooShort then score - 10
             else score);
          score = score + Math_round (of_int (readability_score (readability a)) * (2 / 10));
          score =
            (if sentiment_engagement (sentiment a) = EngagementHigh then score + 15
             else if sentiment_engagement (sentiment a) = EngagementMedium then score + 10
             else score - 5);
          score =
            (if mentions_found (mentions a) \<ge> 1 \<and> mentions_found (mentions a) \<le> 3
             then score + 10
             else if mentions_found (mentions a) > 3 then score - 5
             else score);
          score =
            (if emojis_found (emojis a) \<ge> 1 \<and> emojis_found (emojis a) \<le> 3
             then score + 5
             else score)
      in max 0 (min 100 (Math_round (of_int score))))"

definition getEngagementGrade :: "int \<Rightarrow> jsstring" where
  "getEngagementGrade score =
     (if score \<ge> 90 then str ''A+''
      else if score \<ge> 80 then str ''A''
      else if score \<ge> 70 then str ''B''
      else if score \<ge> 60 then str ''C''
      else if score \<ge> 50 then str ''D''
      else str ''F'')"

section \<open>The optimized version\<close>

definition suggestedHashtags :: "jsstring list" where
  "suggestedHashtags = [str ''#content'', str ''#engagement'', str ''#socialmedia'']"

text \<open>The sentence appended for a missing call to action, after its two line feeds.\<close>

definition callToActionSentence :: jsstring where
  "callToActionSentence =
     str ''What are your thoughts? Share in the comments! '' @ [0xD83D, 0xDC47]"

definition generateOptimizedVersion :: "jsstring \<Rightarrow> analysis \<Rightarrow> jsstring" where
  "generateOptimizedVersion text a =
     (let optimized = trim text;
          optimized =
            (if hashtags_found (hashtags a) = 0
             then optimized @ ([0x0A, 0x0A] @ join (str '' '') suggestedHashtags)
             else optimized);
          optimized =
            (if \<not> cta_found (callToAction a)
             then optimized @ ([0x0A, 0x0A] @ callToActionSentence)
             else optimized)
      in optimized)"

section \<open>The entry point\<close>

text \<open>
  The object returned for an empty text holds six abbreviated records; their types follow
  that literal. The result of \<open>analyzeEngagement\<close> holds either this literal or the seven
  extracted records; its suggestions are plain strings in the first case and suggestion
  objects in the second; \<open>optimizedContent\<close> is \<open>None\<close> where the object has no such
  property.
\<close>

record default_hashtags =
  dflt_hashtags_found :: nat
  dflt_hashtags_recommended :: nat

record default_mentions =
  dflt_mentions_found :: nat
  dflt_mentions_recommended :: nat

record default_cta =
  dflt_cta_found :: bool
  dflt_cta_strength :: strength

record default_length =
  current :: nat
  dflt_optimal :: jsstring

record default_readability =
  dflt_readability_score :: int
  dflt_readability_level :: level

record default_sentiment =
  dflt_sentiment_tone :: tone
  dflt_sentiment_engagement :: engagement

record default_analysis =
  dflt_hashtags :: default_hashtags
  dflt_mentions :: default_mentions
  dflt_callToAction :: default_cta
  dflt_length :: default_length
  dflt_readability :: default_readability
  dflt_sentiment :: default_sentiment

datatype analysis_obj = Default default_analysis | Extracted analysis

datatype suggestion_item = Message jsstring | Advice suggestion

record analysis_result =
  score :: int
  grade :: jsstring
  suggestions :: "suggestion_item list"
  analysis :: analysis_obj
  optimizedContent :: "jsstring option"

text \<open>
  The parameter \<open>type\<close> of the source is only printed by \<open>console.log\<close>; the two log
  lines and that parameter are left out.
\<close>

definition analyzeEngagement :: "(jsstring \<Rightarrow> jsstring) \<Rightarrow> jsstring \<Rightarrow> analysis_result" where
  "analyzeEngagement toLowerCase text =
     (if text = [] \<or> length (trim text) = 0
      then \<lparr> score = 0,
             grade = str ''F'',
             suggestions = [Message (str ''No text content found to analyze'')],
             analysis = Default
               \<lparr> dflt_hashtags =
                   \<lparr> dflt_hashtags_found = 0, dflt_hashtags_recommended = 3 \<rparr>,
                 dflt_mentions =
                   \<lparr> dflt_mentions_found = 0, dflt_mentions_recommended = 2 \<rparr>,
                 dflt_callToAction =
                   \<lparr> dflt_cta_found = False, dflt_cta_strength = StrengthNone \<rparr>,
                 dflt_length = \<lparr> current = 0, dflt_optimal = str ''140-280'' \<rparr>,
                 dflt_readability =
                   \<lparr> dflt_readability_score = 0, dflt_readability_level = Poor \<rparr>,
                 dflt_sentiment =
                   \<lparr> dflt_sentiment_tone = Neutral,
                     dflt_sentiment_engagement = EngagementLow \<rparr> \<rparr>,
             optimizedContent = None \<rparr>
      else
        (let a = \<lparr> hashtags = analyzeHashtags text,
                   mentions = analyzeMentions text,
                   callToAction = analyzeCallToAction toLowerCase text,
                   length_rec = analyzeLength text,
                   readability = analyzeReadability text,
                   sentiment = analyzeSentiment toLowerCase text,
                   emojis = analyzeEmojis text \<rparr>;
             suggestions = generateSuggestions a text;
             score = calculateEngagementScore a;
             grade = getEngagementGrade score
         in \<lparr> score = score,
              grade = grade,
              suggestions = map Advice suggestions,
              analysis = Extracted a,
              optimizedContent = Some (generateOptimizedVersion text a) \<rparr>))"

section \<open>What the specification documents\<close>

text \<open>
  The definitions of this section follow the wording of the specification; the theorems
  below compare them with the functions above.
\<close>

text \<open>The object that \<open>analyzeEngagement\<close> binds to \<open>analysis\<close> for a text it analyses.\<close>

definition extracted :: "(jsstring \<Rightarrow> jsstring) \<Rightarrow> jsstring \<Rightarrow> analysis" where
  "extracted toLowerCase t =
     \<lparr> hashtags = analyzeHashtags t,
       mentions = analyzeMentions t,
       callToAction = analyzeCallToAction toLowerCase t,
       length_rec = analyzeLength t,
       readability = analyzeReadability t,
       sentiment = analyzeSentiment toLowerCase t,
       emojis = analyzeEmojis t \<rparr>"

subsection \<open>The documented score\<close>

definition hashtag_points :: "nat \<Rightarrow> int" where
  "hashtag_points found =
     (if 2 \<le> found \<and> found \<le> 5 then 15 else if found \<ge> 1 then 10 else - 10)"

definition cta_points :: "strength \<Rightarrow> int" where
  "cta_points s = (case s of Strong \<Rightarrow> 20 | Medium \<Rightarrow> 15 | Weak \<Rightarrow> 10 | StrengthNone \<Rightarrow> - 15)"

definition length_points :: "status \<Rightarrow> int" where
  "length_points s = (case s of Good \<Rightarrow> 15 | TooLong \<Rightarrow> - 5 | TooShort \<Rightarrow> - 10)"

definition sentiment_points :: "engagement \<Rightarrow> int" where
  "sentiment_points e =
     (case e of EngagementHigh \<Rightarrow> 15 | EngagementMedium \<Rightarrow> 10 | EngagementLow \<Rightarrow> - 5)"

definition mention_points :: "nat \<Rightarrow> int" where
  "mention_points found =
     (if 1 \<le> found \<and> found \<le> 3 then 10 else if found > 3 then - 5 else 0)"

definition emoji_points :: "nat \<Rightarrow> int" where
  "emoji_points found = (if 1 \<le> found \<and> found \<le> 3 then 5 else 0)"

definition clamp :: "int \<Rightarrow> int \<Rightarrow> int \<Rightarrow> int" where
  "clamp x lo hi = max lo (min hi x)"

definition documented_score :: "analysis \<Rightarrow> int" where
  "documented_score a =
     clamp (Math_round (of_int
        (50 + hashtag_points (hashtags_found (hashtags a))
            + cta_points (cta_strength (callToAction a))
            + length_points (length_status (length_rec a))
            + Math_round (of_int (readability_score (readability a)) * (2 / 10))
            + sentiment_points (sentiment_engagement (sentiment a))
            + mention_points (mentions_found (mentions a))
            + emoji_points (emojis_found (emojis a))))) 0 100"

subsection \<open>The documented suggestion rules\<close>

text \<open>
  The rule table of the specification, in its order: the trigger of each rule and the
  suggestion it appends. A rule fires exactly when its trigger holds.
\<close>

definition documented_rules :: "((analysis \<Rightarrow> bool) \<times> suggestion) list" where
  "documented_rules =
     [(\<lambda>a. hashtags_found (hashtags a) = 0, addHashtags),
      (\<lambda>a. hashtags_found (hashtags a) > 5, reduceHashtags),
      (\<lambda>a. \<not> cta_found (callToAction a), addCallToAction),
      (\<lambda>a. cta_strength (callToAction a) = Weak, strengthenCallToAction),
      (\<lambda>a. length_status (length_rec a) = TooLong, shortenContent),
      (\<lambda>a. length_status (length_rec a) = TooShort, addContext),
      (\<lambda>a. mentions_found (mentions a) = 0, tagPeople),
      (\<lambda>a. emojis_found (emojis a) = 0, addEmojis),
      (\<lambda>a. readability_level (readability a) = Difficult, improveReadability),
      (\<lambda>a. sentiment_engagement (sentiment a) = EngagementLow, engagingLanguage)]"

definition documented_suggestions :: "analysis \<Rightarrow> suggestion list" where
  "documented_suggestions a = map snd (filter (\<lambda>rule. fst rule a) documented_rules)"

text \<open>The documented priorities of the ten rules, in the order of the table.\<close>

definition documented_priorities :: "priority list" where
  "documented_priorities =
     [High, MediumPriority, High, MediumPriority, MediumPriority, Low, MediumPriority, Low,
      High, MediumPriority]"

text \<open>The order of the rule groups: the \<open>type\<close> of the suggestions of each group.\<close>

definition rule_order :: "jsstring list" where
  "rule_order =
     [str ''hashtags'', str ''cta'', str ''length'', str ''mentions'', str ''emojis'',
      str ''readability'', str ''engagement'']"

subsection \<open>The documented counts\<close>

text \<open>
  The number of occurrences of the character \<open>X\<close> followed by one or more word
  characters: the positions that hold \<open>X\<close> with a word character right after.
\<close>

definition count_tagged :: "16 word \<Rightarrow> jsstring \<Rightarrow> nat" where
  "count_tagged X t =
     length (filter (\<lambda>i. t ! i = X \<and> isWordChar (t ! (i + 1))) [0 ..< length t - 1])"

text \<open>The same count by recursion on the text: one for each adjacent pair that qualifies.\<close>

fun tagged_pairs :: "16 word \<Rightarrow> jsstring \<Rightarrow> nat" where
  "tagged_pairs X (c # d # cs) = (if c = X \<and> isWordChar d then 1 else 0) + tagged_pairs X (d # cs)"
| "tagged_pairs X [c] = 0"
| "tagged_pairs X [] = 0"

text \<open>
  The paths \<open>analysis.hashtags.found\<close>, \<open>analysis.hashtags.recommended\<close>,
  \<open>analysis.mentions.found\<close> and \<open>analysis.mentions.recommended\<close> of a result, whichever
  of the two objects it holds.
\<close>

fun analysis_hashtags_found :: "analysis_obj \<Rightarrow> nat" where
  "analysis_hashtags_found (Default d) = dflt_hashtags_found (dflt_hashtags d)"
| "analysis_hashtags_found (Extracted a) = hashtags_found (hashtags a)"

fun analysis_hashtags_recommended :: "analysis_obj \<Rightarrow> nat" where
  "analysis_hashtags_recommended (Default d) = dflt_hashtags_recommended (dflt_hashtags d)"
| "analysis_hashtags_recommended (Extracted a) = hashtags_recommended (hashtags a)"

fun analysis_mentions_found :: "analysis_obj \<Rightarrow> nat" where
  "analysis_mentions_found (Default d) = dflt_mentions_found (dflt_mentions d)"
| "analysis_mentions_found (Extracted a) = mentions_found (mentions a)"

fun analysis_mentions_recommended :: "analysis_obj \<Rightarrow> nat" where
  "analysis_mentions_recommended (Default d) = dflt_mentions_recommended (dflt_mentions d)"
| "analysis_mentions_recommended (Extracted a) = mentions_recommended (mentions a)"

text \<open>
  The path \<open>analysis.length.platform\<close> of a result: \<open>None\<close> for the literal of the
  empty branch, whose length record has no \<open>platform\<close>.
\<close>

fun analysis_length_platform :: "analysis_obj \<Rightarrow> platform option" where
  "analysis_length_platform (Default d) = None"
| "analysis_length_platform (Extracted a) = Some (length_platform (length_rec a))"

subsection \<open>The documented shape of the analysis object\<close>

text \<open>
  The property names of the analysis object and of each record in it, read off the object
  literals of the source: the literal of the empty branch of \<open>analyzeEngagement\<close>, and the
  literal of its other branch with the literals that the seven extractors return.
\<close>

fun analysis_shape :: "analysis_obj \<Rightarrow> (string \<times> string list) list" where
  "analysis_shape (Default d) =
     [(''hashtags'', [''found'', ''recommended'']),
      (''mentions'', [''found'', ''recommended'']),
      (''callToAction'', [''found'', ''strength'']),
      (''length'', [''current'', ''optimal'']),
      (''readability'', [''score'', ''level'']),
      (''sentiment'', [''tone'', ''engagement''])]"
| "analysis_shape (Extracted a) =
     [(''hashtags'', [''found'', ''recommended'', ''list'', ''density'']),
      (''mentions'', [''found'', ''recommended'', ''list'']),
      (''callToAction'', [''found'', ''strength'', ''words'', ''count'']),
      (''length'', [''characters'', ''words'', ''platform'', ''optimal'', ''status'']),
      (''readability'',
         [''score'', ''level'', ''avgWordsPerSentence'', ''sentences'', ''complexity'']),
      (''sentiment'',
         [''tone'', ''engagement'', ''positiveWords'', ''negativeWords'', ''engagementWords'']),
      (''emojis'', [''found'', ''list'', ''density''])]"

text \<open>The seven feature records of the data model of the specification, with their fields.\<close>

definition documented_shape :: "(string \<times> string list) list" where
  "documented_shape =
     [(''hashtags'', [''found'', ''recommended'', ''list'', ''density'']),
      (''mentions'', [''found'', ''recommended'', ''list'']),
      (''callToAction'', [''found'', ''strength'', ''words'', ''count'']),
      (''length'', [''characters'', ''words'', ''platform'', ''optimal'', ''status'']),
      (''readability'',
         [''score'', ''level'', ''avgWordsPerSentence'', ''sentences'', ''complexity'']),
      (''sentiment'',
         [''tone'', ''engagement'', ''positiveWords'', ''negativeWords'', ''engagementWords'']),
      (''emojis'', [''found'', ''list'', ''density''])]"

text \<open>The documented values of \<open>readability.level\<close>.\<close>

definition documented_level :: "level \<Rightarrow> bool" where
  "documented_level l \<longleftrightarrow> l = Excellent \<or> l = Moderate \<or> l = Difficult \<or> l = LevelTooShort"

text \<open>The value of \<open>readability.level\<close> in a result.\<close>

fun analysis_level :: "analysis_obj \<Rightarrow> level" where
  "analysis_level (Default d) = dflt_readability_level (dflt_readability d)"
| "analysis_level (Extracted a) = readability_level (readability a)"

section \<open>Properties\<close>

subsection \<open>Auxiliary facts\<close>

subsubsection \<open>Blank texts and the guard of the entry point\<close>

lemma dropWhile_all_Nil:
  assumes "\<forall>x\<in>set (dropWhile P xs). P x"
  shows "dropWhile P xs = []"
proof (rule ccontr)
  assume ne: "dropWhile P xs \<noteq> []"
  then have "\<not> P (hd (dropWhile P xs))"
    by (rule hd_dropWhile)
  moreover have "hd (dropWhile P xs) \<in> set (dropWhile P xs)"
    using ne by simp
  ultimately show False using assms by blast
qed

lemma trim_eq_Nil: "trim s = [] \<longleftrightarrow> (\<forall>c\<in>set s. isWhiteSpace c)"
proof
  assume "trim s = []"
  then have "\<forall>c\<in>set (dropWhile isWhiteSpace s). isWhiteSpace c"
    by (simp add: trim_def dropWhile_eq_Nil_conv)
  then have "dropWhile isWhiteSpace s = []"
    by (rule dropWhile_all_Nil)
  then show "\<forall>c\<in>set s. isWhiteSpace c"
    by (simp add: dropWhile_eq_Nil_conv)
next
  assume "\<forall>c\<in>set s. isWhiteSpace c"
  then show "trim s = []"
    by (auto simp: trim_def dest: set_dropWhileD)
qed

lemma blank_guard:
  "(t = [] \<or> length (trim t) = 0) \<longleftrightarrow> (\<forall>c\<in>set t. isWhiteSpace c)"
  using trim_eq_Nil [of t] by auto

lemma nonblank_result:
  assumes "\<exists>c\<in>set t. \<not> isWhiteSpace c"
  shows "analyzeEngagement toLowerCase t =
           \<lparr> score = calculateEngagementScore (extracted toLowerCase t),
             grade = getEngagementGrade (calculateEngagementScore (extracted toLowerCase t)),
             suggestions = map Advice (generateSuggestions (extracted toLowerCase t) t),
             analysis = Extracted (extracted toLowerCase t),
             optimizedContent = Some (generateOptimizedVersion t (extracted toLowerCase t)) \<rparr>"
proof -
  from assms have "\<not> (t = [] \<or> length (trim t) = 0)"
    unfolding blank_guard by blast
  then show ?thesis
    by (simp add: analyzeEngagement_def extracted_def Let_def)
qed

subsubsection \<open>The score\<close>

lemma Math_round_of_int: "Math_round (of_int n) = n"
  unfolding Math_round_def by linarith

lemma clamp_bounds: "0 \<le> max 0 (min 100 (x::int)) \<and> max 0 (min 100 x) \<le> 100"
  by simp

lemma score_bounds: "0 \<le> calculateEngagementScore a \<and> calculateEngagementScore a \<le> 100"
  unfolding calculateEngagementScore_def Let_def by (rule clamp_bounds)

lemma grade_thresholds:
  "(sc \<ge> 90 \<longrightarrow> getEngagementGrade sc = str ''A+'') \<and>
   (90 > sc \<and> sc \<ge> 80 \<longrightarrow> getEngagementGrade sc = str ''A'') \<and>
   (80 > sc \<and> sc \<ge> 70 \<longrightarrow> getEngagementGrade sc = str ''B'') \<and>
   (70 > sc \<and> sc \<ge> 60 \<longrightarrow> getEngagementGrade sc = str ''C'') \<and>
   (60 > sc \<and> sc \<ge> 50 \<longrightarrow> getEngagementGrade sc = str ''D'') \<and>
   (sc < 50 \<longrightarrow> getEngagementGrade sc = str ''F'')"
  unfolding getEngagementGrade_def by simp

lemma hashtag_step:
  "(if 2 \<le> f \<and> f \<le> 5 then s + 15 else if 1 \<le> f then s + 10 else s - 10) = s + hashtag_points f"
  by (simp add: hashtag_points_def)

lemma cta_step:
  "(if c = Strong then s + 20 else if c = Medium then s + 15 else if c = Weak then s + 10
    else s - 15) = s + cta_points c"
  by (cases c) (simp_all add: cta_points_def)

lemma length_step:
  "(if l = Good then s + 15 else if l = TooLong then s - 5 else if l = TooShort then s - 10
    else s) = s + length_points l"
  by (cases l) (simp_all add: length_points_def)

lemma sentiment_step:
  "(if e = EngagementHigh then s + 15 else if e = EngagementMedium then s + 10 else s - 5) =
     s + sentiment_points e"
  by (cases e) (simp_all add: sentiment_points_def)

lemma mention_step:
  "(if 1 \<le> m \<and> m \<le> 3 then s + 10 else if 3 < m then s - 5 else s) = s + mention_points m"
  by (simp add: mention_points_def)

lemma emoji_step:
  "(if 1 \<le> e \<and> e \<le> 3 then s + 5 else s) = s + emoji_points e"
  by (simp add: emoji_points_def)

lemma calculateEngagementScore_sum:
  "calculateEngagementScore a =
     max 0 (min 100
       (50 + hashtag_points (hashtags_found (hashtags a))
           + cta_points (cta_strength (callToAction a))
           + length_points (length_status (length_rec a))
           + Math_round (of_int (readability_score (readability a)) * (2 / 10))
           + sentiment_points (sentiment_engagement (sentiment a))
           + mention_points (mentions_found (mentions a))
           + emoji_points (emojis_found (emojis a))))"
  unfolding calculateEngagementScore_def Let_def
  by (simp only: hashtag_step cta_step length_step sentiment_step mention_step emoji_step
        Math_round_of_int)

lemma documented_score_eq: "documented_score a = calculateEngagementScore a"
  unfolding documented_score_def clamp_def calculateEngagementScore_sum Math_round_of_int ..

subsubsection \<open>Splitting and matching\<close>

lemma split_run_not_Nil: "split_run C cur s \<noteq> []"
  by (induction C cur s rule: split_run.induct) auto

lemma split_js_length_pos: "0 < length (split_js C s)"
  by (simp add: split_js_def split_run_not_Nil)

lemma split_run_no_token:
  "filter (\<lambda>w. length w > 0) (split_run C cur s) = [] \<Longrightarrow> cur = [] \<and> (\<forall>c\<in>set s. C c)"
proof (induction C cur s rule: split_run.induct)
  case (1 C cur)
  then show ?case by (simp split: if_splits)
next
  case (2 C cur c cs)
  show ?case
  proof (cases "C c")
    case True
    with "2.prems" have cur: "cur = []"
      and rest: "filter (\<lambda>w. length w > 0) (split_run C [] (dropWhile C cs)) = []"
      by (simp_all split: if_splits)
    from "2.IH"(1) [OF True rest] have "\<forall>x\<in>set (dropWhile C cs). C x"
      by simp
    then have "dropWhile C cs = []"
      by (rule dropWhile_all_Nil)
    then have "\<forall>x\<in>set cs. C x"
      by (simp add: dropWhile_eq_Nil_conv)
    with True cur show ?thesis by simp
  next
    case False
    with "2.prems" have "filter (\<lambda>w. length w > 0) (split_run C (cur @ [c]) cs) = []"
      by simp
    from "2.IH"(2) [OF False this] show ?thesis by simp
  qed
qed

lemma analyzeLength_words:
  "length_words (analyzeLength t) =
     length (filter (\<lambda>word. length word > 0) (split_js isWhiteSpace t))"
  by (cases "length t > 280") (simp_all add: analyzeLength_def Let_def)

lemma no_token_blank:
  "length_words (analyzeLength t) = 0 \<Longrightarrow> \<forall>c\<in>set t. isWhiteSpace c"
  using split_run_no_token [of isWhiteSpace "[]" t]
  by (simp add: analyzeLength_words split_js_def)

lemma scan_tags_set: "scan_tags X s \<noteq> [] \<Longrightarrow> X \<in> set s"
proof (induction X s rule: scan_tags.induct)
  case (1 X)
  then show ?case by simp
next
  case (2 X c cs)
  show ?case
  proof (cases "c = X \<and> takeWhile isWordChar cs \<noteq> []")
    case True
    then show ?thesis by simp
  next
    case False
    with "2.prems" have "scan_tags X cs \<noteq> []" by auto
    from "2.IH"(2) [OF False this] show ?thesis by simp
  qed
qed

lemma hash_not_space: "\<not> isWhiteSpace 0x23" "\<not> isWhiteSpace 0x40"
  by (simp_all add: isWhiteSpace_def)

lemma blank_no_tags:
  assumes "\<forall>c\<in>set s. isWhiteSpace c"
  shows "scan_tags 0x23 s = []" and "scan_tags 0x40 s = []"
  using assms scan_tags_set [of "0x23" s] scan_tags_set [of "0x40" s] hash_not_space
  by blast+

lemma space_not_emoji:
  assumes "isWhiteSpace c"
  shows "\<not> isEmoji (unat c)" and "\<not> isLeadSurrogate c"
  using assms
  by (auto simp: isWhiteSpace_def isEmoji_def isLeadSurrogate_def word_le_nat_alt)

lemma blank_no_emojis:
  "\<forall>c\<in>set s. isWhiteSpace c \<Longrightarrow> scan_emojis s = []"
  by (induction s rule: scan_emojis.induct) (auto simp: space_not_emoji)

lemma joined_hashtags:
  "join (str '' '') suggestedHashtags = str ''#content #engagement #socialmedia''"
  by (simp add: suggestedHashtags_def str_def)

subsubsection \<open>Counting tagged words\<close>

lemma upt_0_Suc: "[0..<Suc n] = 0 # map Suc [0..<n]"
  by (simp add: upt_conv_Cons map_Suc_upt del: upt_Suc)

lemma count_tagged_Cons2:
  "count_tagged X (c # d # cs) =
     (if c = X \<and> isWordChar d then 1 else 0) + count_tagged X (d # cs)"
proof -
  have "count_tagged X (c # d # cs) =
          length (filter (\<lambda>i. (c # d # cs) ! i = X \<and> isWordChar ((c # d # cs) ! (i + 1)))
                    (0 # map Suc [0..<length cs]))"
    unfolding count_tagged_def by (simp only: list.size upt_0_Suc [symmetric]) simp
  also have "\<dots> = (if c = X \<and> isWordChar d then 1 else 0) +
                   length (filter (\<lambda>i. (d # cs) ! i = X \<and> isWordChar ((d # cs) ! (i + 1)))
                             [0..<length cs])"
    by (simp add: filter_map o_def)
  finally show ?thesis
    by (simp add: count_tagged_def)
qed

lemma count_tagged_pairs: "count_tagged X t = tagged_pairs X t"
  by (induction X t rule: tagged_pairs.induct)
     (simp_all add: count_tagged_Cons2, simp_all add: count_tagged_def)

lemma tagged_pairs_Cons:
  "tagged_pairs X (d # cs) =
     (if d = X \<and> cs \<noteq> [] \<and> isWordChar (hd cs) then 1 else 0) + tagged_pairs X cs"
  by (cases cs) simp_all

lemma tagged_pairs_skip:
  "\<not> isWordChar X \<Longrightarrow> tagged_pairs X (dropWhile isWordChar cs) = tagged_pairs X cs"
  by (induction cs) (auto simp: tagged_pairs_Cons)

lemma scan_tags_count:
  "\<not> isWordChar X \<Longrightarrow> length (scan_tags X s) = tagged_pairs X s"
proof (induction X s rule: scan_tags.induct)
  case (1 X)
  show ?case by simp
next
  case (2 X c cs)
  note nw = \<open>\<not> isWordChar X\<close>
  show ?case
  proof (cases "c = X \<and> takeWhile isWordChar cs \<noteq> []")
    case True
    then have w: "cs \<noteq> [] \<and> isWordChar (hd cs)"
      by (cases cs) (auto split: if_splits)
    from True "2.IH"(1) nw have "length (scan_tags X (c # cs)) =
        1 + tagged_pairs X (dropWhile isWordChar cs)"
      by simp
    also have "\<dots> = 1 + tagged_pairs X cs"
      using nw by (simp add: tagged_pairs_skip)
    also have "\<dots> = tagged_pairs X (c # cs)"
      using True w by (simp add: tagged_pairs_Cons)
    finally show ?thesis .
  next
    case False
    then have "\<not> (c = X \<and> cs \<noteq> [] \<and> isWordChar (hd cs))"
      by (cases cs) (auto split: if_splits)
    then have tp: "tagged_pairs X (c # cs) = tagged_pairs X cs"
      by (simp add: tagged_pairs_Cons)
    have st: "scan_tags X (c # cs) = scan_tags X cs"
      by (simp only: scan_tags.simps False if_False)
    from "2.IH"(2) [OF False nw] show ?thesis
      unfolding tp st .
  qed
qed

lemma sigils_not_word: "\<not> isWordChar 0x23" "\<not> isWordChar 0x40"
  by (simp_all add: isWordChar_def)

lemma or_empty_match_tags: "or_empty (match_tags X s) = scan_tags X s"
  by (simp add: or_empty_def match_tags_def)

lemma or_empty_match_emojis: "or_empty (match_emojis s) = scan_emojis s"
  by (simp add: or_empty_def match_emojis_def)

lemma hashtags_found_count: "hashtags_found (analyzeHashtags t) = count_tagged 0x23 t"
  by (simp add: analyzeHashtags_def Let_def or_empty_match_tags
        scan_tags_count [OF sigils_not_word(1)] count_tagged_pairs)

lemma mentions_found_count: "mentions_found (analyzeMentions t) = count_tagged 0x40 t"
  by (simp add: analyzeMentions_def Let_def or_empty_match_tags
        scan_tags_count [OF sigils_not_word(2)] count_tagged_pairs)

lemma blank_count_tagged:
  assumes "\<forall>c\<in>set t. isWhiteSpace c"
  shows "count_tagged 0x23 t = 0" and "count_tagged 0x40 t = 0"
  using blank_no_tags [OF assms]
    scan_tags_count [OF sigils_not_word(1), of t] scan_tags_count [OF sigils_not_word(2), of t]
  by (simp_all add: count_tagged_pairs)

subsubsection \<open>The suggestion rules\<close>

lemma pair_step:
  "\<not> (c1 \<and> c2) \<Longrightarrow>
   (if c1 then S @ [x] else if c2 then S @ [y] else S) =
     S @ (if c1 then [x] else []) @ (if c2 then [y] else [])"
  by auto

lemma single_step: "(if c then S @ [x] else S) = S @ (if c then [x] else [])"
  by simp

lemma filter_Cons_append: "filter P (x # xs) = (if P x then [x] else []) @ filter P xs"
  by simp

lemma map_if_single: "map f (if c then [x] else []) = (if c then [f x] else [])"
  by simp

lemma documented_suggestions_append:
  "documented_suggestions a =
     (if hashtags_found (hashtags a) = 0 then [addHashtags] else []) @
     (if hashtags_found (hashtags a) > 5 then [reduceHashtags] else []) @
     (if \<not> cta_found (callToAction a) then [addCallToAction] else []) @
     (if cta_strength (callToAction a) = Weak then [strengthenCallToAction] else []) @
     (if length_status (length_rec a) = TooLong then [shortenContent] else []) @
     (if length_status (length_rec a) = TooShort then [addContext] else []) @
     (if mentions_found (mentions a) = 0 then [tagPeople] else []) @
     (if emojis_found (emojis a) = 0 then [addEmojis] else []) @
     (if readability_level (readability a) = Difficult then [improveReadability] else []) @
     (if sentiment_engagement (sentiment a) = EngagementLow then [engagingLanguage] else [])"
  unfolding documented_suggestions_def documented_rules_def
  by (simp only: filter_Cons_append filter.simps map_append map_if_single list.map
        fst_conv snd_conv append_Nil2)

lemma generateSuggestions_documented:
  assumes "cta_found (callToAction a) \<longleftrightarrow> cta_strength (callToAction a) \<noteq> StrengthNone"
  shows "generateSuggestions a t = documented_suggestions a"
proof -
  have h: "\<not> (hashtags_found (hashtags a) = 0 \<and> hashtags_found (hashtags a) > 5)"
    by linarith
  have c: "\<not> (\<not> cta_found (callToAction a) \<and> cta_strength (callToAction a) = Weak)"
    using assms by simp
  have l: "\<not> (length_status (length_rec a) = TooLong \<and>
              length_status (length_rec a) = TooShort)"
    by simp
  have "generateSuggestions a t =
     (((((([] @ (if hashtags_found (hashtags a) = 0 then [addHashtags] else []) @
             (if hashtags_found (hashtags a) > 5 then [reduceHashtags] else [])) @
           (if \<not> cta_found (callToAction a) then [addCallToAction] else []) @
           (if cta_strength (callToAction a) = Weak then [strengthenCallToAction] else [])) @
          (if length_status (length_rec a) = TooLong then [shortenContent] else []) @
          (if length_status (length_rec a) = TooShort then [addContext] else [])) @
         (if mentions_found (mentions a) = 0 then [tagPeople] else [])) @
        (if emojis_found (emojis a) = 0 then [addEmojis] else [])) @
       (if readability_level (readability a) = Difficult then [improveReadability] else [])) @
      (if sentiment_engagement (sentiment a) = EngagementLow then [engagingLanguage] else [])"
    unfolding generateSuggestions_def Let_def
    by (simp only: pair_step [OF h] pair_step [OF c] pair_step [OF l]
          single_step [of "mentions_found (mentions a) = 0"]
          single_step [of "emojis_found (emojis a) = 0"]
          single_step [of "readability_level (readability a) = Difficult"]
          single_step [of "sentiment_engagement (sentiment a) = EngagementLow"])
  then show ?thesis
    unfolding documented_suggestions_append by (simp only: append_Nil append_assoc)
qed

lemma cta_found_strength:
  "cta_found (analyzeCallToAction toLowerCase t) \<longleftrightarrow>
     cta_strength (analyzeCallToAction toLowerCase t) \<noteq> StrengthNone"
  by (cases "filter (\<lambda>cta. includes_js (toLowerCase t) cta) ctaWords")
     (simp_all add: analyzeCallToAction_def Let_def)

lemma subseq_distinct: "subseq xs ys \<Longrightarrow> distinct ys \<Longrightarrow> distinct xs"
  by (auto simp: subseq_conv_nths)

lemma subseq_piece: "subseq (if c then [x] else []) [x]"
  by simp

lemma subseq_pair:
  "\<not> (c1 \<and> c2) \<Longrightarrow> subseq ((if c1 then [x] else []) @ (if c2 then [x] else [])) [x]"
  by auto

lemma suggestion_types:
  "sug_type addHashtags = str ''hashtags''" "sug_type reduceHashtags = str ''hashtags''"
  "sug_type addCallToAction = str ''cta''" "sug_type strengthenCallToAction = str ''cta''"
  "sug_type shortenContent = str ''length''" "sug_type addContext = str ''length''"
  "sug_type tagPeople = str ''mentions''" "sug_type addEmojis = str ''emojis''"
  "sug_type improveReadability = str ''readability''"
  "sug_type engagingLanguage = str ''engagement''"
  by (simp_all add: addHashtags_def reduceHashtags_def addCallToAction_def
        strengthenCallToAction_def shortenContent_def addContext_def tagPeople_def
        addEmojis_def improveReadability_def engagingLanguage_def)

lemma documented_types_in_order:
  assumes "cta_found (callToAction a) \<longleftrightarrow> cta_strength (callToAction a) \<noteq> StrengthNone"
  shows "subseq (map sug_type (documented_suggestions a)) rule_order"
proof -
  have h: "\<not> (hashtags_found (hashtags a) = 0 \<and> hashtags_found (hashtags a) > 5)"
    by linarith
  have c: "\<not> (\<not> cta_found (callToAction a) \<and> cta_strength (callToAction a) = Weak)"
    using assms by simp
  have l: "\<not> (length_status (length_rec a) = TooLong \<and>
              length_status (length_rec a) = TooShort)"
    by simp
  have o: "rule_order =
     [str ''hashtags''] @ [str ''cta''] @ [str ''length''] @ [str ''mentions''] @
     [str ''emojis''] @ [str ''readability''] @ [str ''engagement'']"
    by (simp add: rule_order_def)
  have m: "map sug_type (documented_suggestions a) =
     ((if hashtags_found (hashtags a) = 0 then [str ''hashtags''] else []) @
      (if hashtags_found (hashtags a) > 5 then [str ''hashtags''] else [])) @
     ((if \<not> cta_found (callToAction a) then [str ''cta''] else []) @
      (if cta_strength (callToAction a) = Weak then [str ''cta''] else [])) @
     ((if length_status (length_rec a) = TooLong then [str ''length''] else []) @
      (if length_status (length_rec a) = TooShort then [str ''length''] else [])) @
     (if mentions_found (mentions a) = 0 then [str ''mentions''] else []) @
     (if emojis_found (emojis a) = 0 then [str ''emojis''] else []) @
     (if readability_level (readability a) = Difficult then [str ''readability''] else []) @
     (if sentiment_engagement (sentiment a) = EngagementLow then [str ''engagement''] else [])"
    unfolding documented_suggestions_append
    by (simp only: map_append map_if_single suggestion_types append_assoc)
  show ?thesis
    unfolding m o
    by (intro list_emb_append_mono subseq_pair [OF h] subseq_pair [OF c] subseq_pair [OF l]
          subseq_piece)
qed

subsubsection \<open>The readability level\<close>

lemma readability_level_documented: "documented_level (readability_level (analyzeReadability t))"
  by (simp add: analyzeReadability_def Let_def documented_level_def split: prod.splits)

subsubsection \<open>Two roundings\<close>

text \<open>
  One hashtag in three pieces: the double nearest to a third, times 100, rounded again, is
  the double that prints as \<open>33.33333333333333\<close>; eleven in twenty give the double that
  prints as \<open>55.00000000000001\<close>.
\<close>

lemma third_as_percent:
  "round_double (round_double (1 / 3) * 100) = 2345624805922133 / 70368744177664"
  by code_simp

lemma eleven_twentieths_as_percent:
  "round_double (round_double (11 / 20) * 100) = 7740561859543041 / 140737488355328"
  by code_simp

subsubsection \<open>A worked text\<close>

text \<open>The records extracted from the two-letter text \<open>Hi\<close>, computed.\<close>

lemma Hi_nonblank: "\<exists>c\<in>set (str ''Hi''). \<not> isWhiteSpace c"
  by (simp add: str_def isWhiteSpace_def)

lemma Hi_hashtags: "hashtags_found (analyzeHashtags (str ''Hi'')) = 0"
  by (simp add: analyzeHashtags_def or_empty_match_tags str_def Let_def)

lemma Hi_mentions: "mentions_found (analyzeMentions (str ''Hi'')) = 0"
  by (simp add: analyzeMentions_def or_empty_match_tags str_def Let_def)

lemma Hi_cta:
  "cta_found (analyzeCallToAction toLowerCaseASCII (str ''Hi'')) = False"
  "cta_strength (analyzeCallToAction toLowerCaseASCII (str ''Hi'')) = StrengthNone"
  by (simp_all add: analyzeCallToAction_def ctaWords_def toLowerCaseASCII_def str_def Let_def)

lemma Hi_length: "length_status (analyzeLength (str ''Hi'')) = TooShort"
  by (simp add: analyzeLength_def Let_def str_def)

lemma Hi_split: "split_js isWhiteSpace (str ''Hi'') = [str ''Hi'']"
  "split_js isSentenceEnd (str ''Hi'') = [str ''Hi'']"
  by (simp_all add: split_js_def str_def isWhiteSpace_def isSentenceEnd_def)

lemma Hi_trim: "trim (str ''Hi'') = str ''Hi''"
  by (simp add: trim_def str_def isWhiteSpace_def)

lemma Hi_readability:
  "readability_score (analyzeReadability (str ''Hi'')) = 80"
  "readability_level (analyzeReadability (str ''Hi'')) = LevelTooShort"
  unfolding analyzeReadability_def Hi_split
  by (simp_all add: Let_def Hi_trim Math_round_of_int str_def)

lemma Hi_sentiment:
  "sentiment_engagement (analyzeSentiment toLowerCaseASCII (str ''Hi'')) = EngagementLow"
  by (simp add: analyzeSentiment_def engagementWordList_def positiveWordList_def
        negativeWordList_def toLowerCaseASCII_def str_def Let_def)

lemma Hi_emojis: "emojis_found (analyzeEmojis (str ''Hi'')) = 0"
  by (simp add: analyzeEmojis_def or_empty_match_emojis str_def Let_def isEmoji_def
        isLeadSurrogate_def)

lemma Hi_suggestions:
  "documented_suggestions (extracted toLowerCaseASCII (str ''Hi'')) =
     [addHashtags, addCallToAction, addContext, tagPeople, addEmojis, engagingLanguage]"
  unfolding documented_suggestions_append
  by (simp add: extracted_def Hi_hashtags Hi_mentions Hi_cta Hi_length Hi_readability
        Hi_sentiment Hi_emojis)

lemma Math_round_numeral: "Math_round (numeral k) = numeral k"
  using Math_round_of_int [of "numeral k"] by simp

lemma Hi_score: "documented_score (extracted toLowerCaseASCII (str ''Hi'')) = 26"
  unfolding documented_score_def
  by (simp add: extracted_def Hi_hashtags Hi_mentions Hi_cta Hi_length Hi_readability
        Hi_sentiment Hi_emojis hashtag_points_def cta_points_def length_points_def
        sentiment_points_def mention_points_def emoji_points_def clamp_def
        Math_round_numeral)

subsection \<open>Score range and grade\<close>

text \<open>
  Claim C1. For every string input, \<open>analyzeEngagement\<close> returns a score that is an
  integer between 0 and 100, and the grade is the letter that the thresholds give for that
  score: \<open>A+\<close> from 90, \<open>A\<close> from 80 and below 90, \<open>B\<close> from 70 and below 80,
  \<open>C\<close> from 60 and below 70, \<open>D\<close> from 50 and below 60, and \<open>F\<close> below 50.
\<close>

theorem analyzeEngagement_score_grade:
  "0 \<le> score (analyzeEngagement toLowerCase t) \<and>
   score (analyzeEngagement toLowerCase t) \<le> 100 \<and>
   (score (analyzeEngagement toLowerCase t) \<ge> 90 \<longrightarrow>
      grade (analyzeEngagement toLowerCase t) = str ''A+'') \<and>
   (90 > score (analyzeEngagement toLowerCase t) \<and>
    score (analyzeEngagement toLowerCase t) \<ge> 80 \<longrightarrow>
      grade (analyzeEngagement toLowerCase t) = str ''A'') \<and>
   (80 > score (analyzeEngagement toLowerCase t) \<and>
    score (analyzeEngagement toLowerCase t) \<ge> 70 \<longrightarrow>
      grade (analyzeEngagement toLowerCase t) = str ''B'') \<and>
   (70 > score (analyzeEngagement toLowerCase t) \<and>
    score (analyzeEngagement toLowerCase t) \<ge> 60 \<longrightarrow>
      grade (analyzeEngagement toLowerCase t) = str ''C'') \<and>
   (60 > score (analyzeEngagement toLowerCase t) \<and>
    score (analyzeEngagement toLowerCase t) \<ge> 50 \<longrightarrow>
      grade (analyzeEngagement toLowerCase t) = str ''D'') \<and>
   (score (analyzeEngagement toLowerCase t) < 50 \<longrightarrow>
      grade (analyzeEngagement toLowerCase t) = str ''F'')"
proof -
  have g: "grade (analyzeEngagement toLowerCase t) =
             getEngagementGrade (score (analyzeEngagement toLowerCase t))"
    by (simp add: analyzeEngagement_def Let_def getEngagementGrade_def)
  have b: "0 \<le> score (analyzeEngagement toLowerCase t) \<and>
           score (analyzeEngagement toLowerCase t) \<le> 100"
    by (simp add: analyzeEngagement_def Let_def score_bounds)
  show ?thesis
    unfolding g using b grade_thresholds [of "score (analyzeEngagement toLowerCase t)"]
    by blast
qed

theorem analyzeEngagement_score_grade_witness:
  "score (analyzeEngagement toLowerCaseASCII (str ''Hi'')) = 26 \<and>
   grade (analyzeEngagement toLowerCaseASCII (str ''Hi'')) = str ''F''"
proof -
  have h: "score (analyzeEngagement toLowerCaseASCII (str ''Hi'')) = 26"
    by (simp add: nonblank_result [OF Hi_nonblank] documented_score_eq [symmetric] Hi_score)
  then have "score (analyzeEngagement toLowerCaseASCII (str ''Hi'')) < 50"
    by simp
  with analyzeEngagement_score_grade [of toLowerCaseASCII "str ''Hi''"] h show ?thesis
    by blast
qed

subsection \<open>Empty and whitespace-only text\<close>

text \<open>
  Claim C2. For every input that is empty or consists only of whitespace,
  \<open>analyzeEngagement\<close> calls no extractor: it returns the score 0, the grade \<open>F\<close>, the
  single suggestion \<open>No text content found to analyze\<close>, no \<open>optimizedContent\<close>, and
  the fixed analysis object of its first branch.
\<close>

theorem empty_text_result:
  assumes "\<forall>c\<in>set t. isWhiteSpace c"
  shows "score (analyzeEngagement toLowerCase t) = 0 \<and>
         grade (analyzeEngagement toLowerCase t) = str ''F'' \<and>
         suggestions (analyzeEngagement toLowerCase t) =
           [Message (str ''No text content found to analyze'')] \<and>
         optimizedContent (analyzeEngagement toLowerCase t) = None \<and>
         analysis (analyzeEngagement toLowerCase t) =
           Default
             \<lparr> dflt_hashtags = \<lparr> dflt_hashtags_found = 0, dflt_hashtags_recommended = 3 \<rparr>,
               dflt_mentions = \<lparr> dflt_mentions_found = 0, dflt_mentions_recommended = 2 \<rparr>,
               dflt_callToAction =
                 \<lparr> dflt_cta_found = False, dflt_cta_strength = StrengthNone \<rparr>,
               dflt_length = \<lparr> current = 0, dflt_optimal = str ''140-280'' \<rparr>,
               dflt_readability =
                 \<lparr> dflt_readability_score = 0, dflt_readability_level = Poor \<rparr>,
               dflt_sentiment =
                 \<lparr> dflt_sentiment_tone = Neutral,
                   dflt_sentiment_engagement = EngagementLow \<rparr> \<rparr>"
proof -
  from assms have "t = [] \<or> length (trim t) = 0"
    unfolding blank_guard .
  then show ?thesis
    by (simp add: analyzeEngagement_def)
qed

theorem empty_text_result_witness:
  "isWhiteSpace 0x20 \<and> isWhiteSpace 0x09 \<and> isWhiteSpace 0x0A \<and>
   score (analyzeEngagement toLowerCaseASCII [0x20, 0x09, 0x0A]) = 0 \<and>
   grade (analyzeEngagement toLowerCaseASCII [0x20, 0x09, 0x0A]) = str ''F'' \<and>
   suggestions (analyzeEngagement toLowerCaseASCII [0x20, 0x09, 0x0A]) =
     [Message (str ''No text content found to analyze'')] \<and>
   optimizedContent (analyzeEngagement toLowerCaseASCII [0x20, 0x09, 0x0A]) = None"
proof -
  have w: "isWhiteSpace 0x20 \<and> isWhiteSpace 0x09 \<and> isWhiteSpace 0x0A"
    by (simp add: isWhiteSpace_def)
  then have h: "\<forall>c\<in>set [0x20, 0x09, 0x0A]. isWhiteSpace c"
    by simp
  from empty_text_result [OF h, of toLowerCaseASCII] w show ?thesis
    by blast
qed

subsection \<open>The score as a sum\<close>

text \<open>
  Claim C3. For every input that is neither empty nor all whitespace, the result holds the
  seven extracted records and its score is the documented one:
  \<open>clamp(round(50 + h + c + l + round(readability.score * 0.2) + s + m + e), 0, 100)\<close>,
  with the seven terms as \<open>documented_score\<close> defines them.
\<close>

theorem score_is_documented_sum:
  assumes "\<exists>c\<in>set t. \<not> isWhiteSpace c"
  shows "analysis (analyzeEngagement toLowerCase t) = Extracted (extracted toLowerCase t) \<and>
         score (analyzeEngagement toLowerCase t) = documented_score (extracted toLowerCase t)"
  by (simp add: nonblank_result [OF assms] documented_score_eq)

theorem score_is_documented_sum_witness:
  "analysis (analyzeEngagement toLowerCaseASCII (str ''Hi'')) =
     Extracted (extracted toLowerCaseASCII (str ''Hi'')) \<and>
   score (analyzeEngagement toLowerCaseASCII (str ''Hi'')) = 26"
  using score_is_documented_sum [OF Hi_nonblank, of toLowerCaseASCII]
  by (simp add: Hi_score)

subsection \<open>A strong call to action never lowers the score\<close>

text \<open>
  Claim C6. With all other feature records fixed, replacing a call-to-action record of
  strength \<open>none\<close> (nothing found) by one of strength \<open>strong\<close> never decreases the score.
\<close>

theorem strong_cta_never_lowers_score:
  assumes "cta_strength c0 = StrengthNone" and "\<not> cta_found c0" and "cta_strength c1 = Strong"
  shows "calculateEngagementScore (a\<lparr>callToAction := c0\<rparr>) \<le>
         calculateEngagementScore (a\<lparr>callToAction := c1\<rparr>)"
  using assms by (simp add: calculateEngagementScore_sum cta_points_def)


theorem strong_cta_never_lowers_score_witness:
  "calculateEngagementScore
     ((extracted toLowerCaseASCII (str ''Hi''))
        \<lparr> callToAction := \<lparr> cta_found = False, cta_strength = StrengthNone, cta_words = [],
                            cta_count = 0 \<rparr> \<rparr>) \<le>
   calculateEngagementScore
     ((extracted toLowerCaseASCII (str ''Hi''))
        \<lparr> callToAction := \<lparr> cta_found = True, cta_strength = Strong,
                            cta_words = [str ''click'', str ''buy'', str ''shop''],
                            cta_count = 3 \<rparr> \<rparr>)"
  using strong_cta_never_lowers_score
    [of "\<lparr> cta_found = False, cta_strength = StrengthNone, cta_words = [], cta_count = 0 \<rparr>"
        "\<lparr> cta_found = True, cta_strength = Strong,
           cta_words = [str ''click'', str ''buy'', str ''shop''], cta_count = 3 \<rparr>"
        "extracted toLowerCaseASCII (str ''Hi'')"]
  by simp

subsection \<open>The platform of the length record\<close>

text \<open>
  Claim C10. For every string, the platform that \<open>analyzeLength\<close> returns is \<open>twitter\<close>
  when the text has at most 280 characters and \<open>linkedin\<close> when it has more; the initial
  value \<open>general\<close> is never returned, the two branches covering every length, and no
  result of \<open>analyzeEngagement\<close> holds it.
\<close>

theorem analyzeLength_platform:
  "(length t \<le> 280 \<longrightarrow> length_platform (analyzeLength t) = Twitter) \<and>
   (length t > 280 \<longrightarrow> length_platform (analyzeLength t) = Linkedin) \<and>
   length_platform (analyzeLength t) \<noteq> General \<and>
   analysis_length_platform (analysis (analyzeEngagement toLowerCase t)) \<noteq> Some General"
proof -
  have p: "length_platform (analyzeLength t) = (if length t \<le> 280 then Twitter else Linkedin)"
    by (simp add: analyzeLength_def Let_def)
  have "analysis_length_platform (analysis (analyzeEngagement toLowerCase t)) \<noteq> Some General"
    by (simp add: analyzeEngagement_def Let_def p)
  with p show ?thesis
    by simp
qed

theorem analyzeLength_platform_witness:
  "length (str ''Hi'') \<le> 280 \<and> length_platform (analyzeLength (str ''Hi'')) = Twitter"
proof -
  have h: "length (str ''Hi'') \<le> 280"
    by (simp add: str_def)
  with analyzeLength_platform [of "str ''Hi''" toLowerCaseASCII] show ?thesis
    by blast
qed

subsection \<open>The optimized version\<close>

text \<open>
  Claim C5. For every input whose hashtag record has \<open>found > 0\<close> and whose call-to-action
  record has \<open>found = true\<close>, \<open>optimizedContent\<close> is the trimmed text unchanged. In
  general the optimizer returns the trimmed text, followed by two line feeds and the three
  generic hashtags when \<open>hashtags.found = 0\<close>, followed by two line feeds and the fixed
  call-to-action sentence when \<open>callToAction.found\<close> is false; \<open>optimizedContent\<close> is
  what the optimizer returns on the extracted records, for every text that is analysed.
\<close>

theorem optimizedContent_rule:
  "(hashtags_found (analyzeHashtags t) > 0 \<and> cta_found (analyzeCallToAction toLowerCase t)
      \<longrightarrow> optimizedContent (analyzeEngagement toLowerCase t) = Some (trim t)) \<and>
   generateOptimizedVersion t a =
     trim t
     @ (if hashtags_found (hashtags a) = 0
        then [0x0A, 0x0A] @ str ''#content #engagement #socialmedia'' else [])
     @ (if \<not> cta_found (callToAction a)
        then [0x0A, 0x0A] @ callToActionSentence else []) \<and>
   ((\<exists>c\<in>set t. \<not> isWhiteSpace c) \<longrightarrow>
      optimizedContent (analyzeEngagement toLowerCase t) =
        Some (generateOptimizedVersion t (extracted toLowerCase t)))"
proof (intro conjI impI)
  show g: "generateOptimizedVersion t a =
     trim t
     @ (if hashtags_found (hashtags a) = 0
        then [0x0A, 0x0A] @ str ''#content #engagement #socialmedia'' else [])
     @ (if \<not> cta_found (callToAction a)
        then [0x0A, 0x0A] @ callToActionSentence else [])" for a
    by (simp add: generateOptimizedVersion_def Let_def joined_hashtags)
  show n: "optimizedContent (analyzeEngagement toLowerCase t) =
        Some (generateOptimizedVersion t (extracted toLowerCase t))"
    if "\<exists>c\<in>set t. \<not> isWhiteSpace c"
    by (simp add: nonblank_result [OF that])
  assume c: "hashtags_found (analyzeHashtags t) > 0 \<and>
             cta_found (analyzeCallToAction toLowerCase t)"
  then have "scan_tags 0x23 t \<noteq> []"
    by (auto simp: analyzeHashtags_def Let_def or_empty_def match_tags_def)
  with blank_no_tags(1) [of t] have nb: "\<exists>c\<in>set t. \<not> isWhiteSpace c"
    by blast
  from c show "optimizedContent (analyzeEngagement toLowerCase t) = Some (trim t)"
    unfolding n [OF nb] g by (simp add: extracted_def)
qed

theorem optimizedContent_rule_witness:
  "hashtags_found (analyzeHashtags (str ''#a buy'')) > 0 \<and>
   cta_found (analyzeCallToAction toLowerCaseASCII (str ''#a buy'')) \<and>
   optimizedContent (analyzeEngagement toLowerCaseASCII (str ''#a buy'')) =
     Some (str ''#a buy'')"
proof -
  have h: "hashtags_found (analyzeHashtags (str ''#a buy'')) > 0"
    by (simp add: analyzeHashtags_def or_empty_def match_tags_def str_def isWordChar_def
          Let_def)
  have c: "cta_found (analyzeCallToAction toLowerCaseASCII (str ''#a buy''))"
    by (simp add: analyzeCallToAction_def ctaWords_def toLowerCaseASCII_def str_def Let_def)
  have t: "trim (str ''#a buy'') = str ''#a buy''"
    by (simp add: trim_def str_def isWhiteSpace_def)
  from optimizedContent_rule [of "str ''#a buy''" toLowerCaseASCII] h c
  have "optimizedContent (analyzeEngagement toLowerCaseASCII (str ''#a buy'')) =
          Some (trim (str ''#a buy''))"
    by blast
  with h c show ?thesis
    unfolding t by blast
qed

subsection \<open>Densities\<close>

text \<open>
  Claim C7. For every string, the empty one included, the number of pieces that divides
  the densities in the hashtag and emoji extractors is never zero, so the \<open>density\<close>
  field of the hashtag record and of the emoji record is a number, the doubly rounded
  \<open>found / pieces * 100\<close>, never \<open>NaN\<close> (nor \<open>Infinity\<close>); it is 0 when the text has no
  token; and no density in a result of \<open>analyzeEngagement\<close> is the value of a division by
  zero.
\<close>

theorem density_is_finite:
  "0 < length (split_js isWhiteSpace t) \<and>
   hashtags_density (analyzeHashtags t) =
     Num (round_double
            (round_double (of_nat (hashtags_found (analyzeHashtags t)) /
                           of_nat (length (split_js isWhiteSpace t))) * 100)) \<and>
   emojis_density (analyzeEmojis t) =
     Num (round_double
            (round_double (of_nat (emojis_found (analyzeEmojis t)) /
                           of_nat (length (split_js isWhiteSpace t))) * 100)) \<and>
   hashtags_density (analyzeHashtags t) \<noteq> NaN \<and>
   hashtags_density (analyzeHashtags t) \<noteq> Infinity \<and>
   emojis_density (analyzeEmojis t) \<noteq> NaN \<and>
   emojis_density (analyzeEmojis t) \<noteq> Infinity \<and>
   (length_words (analyzeLength t) = 0 \<longrightarrow>
      hashtags_density (analyzeHashtags t) = Num 0 \<and>
      emojis_density (analyzeEmojis t) = Num 0) \<and>
   (\<forall>a. analysis (analyzeEngagement toLowerCase t) = Extracted a \<longrightarrow>
      hashtags_density (hashtags a) \<noteq> NaN \<and> hashtags_density (hashtags a) \<noteq> Infinity \<and>
      emojis_density (emojis a) \<noteq> NaN \<and> emojis_density (emojis a) \<noteq> Infinity)"
proof -
  have pos: "0 < length (split_js isWhiteSpace t)"
    by (rule split_js_length_pos)
  have hd: "hashtags_density (analyzeHashtags t) =
     Num (round_double
            (round_double (of_nat (hashtags_found (analyzeHashtags t)) /
                           of_nat (length (split_js isWhiteSpace t))) * 100))"
    using pos by (simp add: analyzeHashtags_def Let_def js_div_def)
  have ed: "emojis_density (analyzeEmojis t) =
     Num (round_double
            (round_double (of_nat (emojis_found (analyzeEmojis t)) /
                           of_nat (length (split_js isWhiteSpace t))) * 100))"
    using pos by (simp add: analyzeEmojis_def Let_def js_div_def)
  have fin: "hashtags_density (analyzeHashtags t) \<noteq> NaN \<and>
             hashtags_density (analyzeHashtags t) \<noteq> Infinity \<and>
             emojis_density (analyzeEmojis t) \<noteq> NaN \<and>
             emojis_density (analyzeEmojis t) \<noteq> Infinity"
    unfolding hd ed by simp
  have zero: "hashtags_density (analyzeHashtags t) = Num 0 \<and>
              emojis_density (analyzeEmojis t) = Num 0"
    if "length_words (analyzeLength t) = 0"
  proof -
    from that have b: "\<forall>c\<in>set t. isWhiteSpace c"
      by (rule no_token_blank)
    have "hashtags_found (analyzeHashtags t) = 0"
      by (simp add: hashtags_found_count blank_count_tagged [OF b])
    moreover have "emojis_found (analyzeEmojis t) = 0"
      by (simp add: analyzeEmojis_def Let_def or_empty_match_emojis
            blank_no_emojis [OF b])
    ultimately show ?thesis
      unfolding hd ed by (simp add: round_double_def)
  qed
  have res: "hashtags_density (hashtags a) \<noteq> NaN \<and> hashtags_density (hashtags a) \<noteq> Infinity \<and>
      emojis_density (emojis a) \<noteq> NaN \<and> emojis_density (emojis a) \<noteq> Infinity"
    if "analysis (analyzeEngagement toLowerCase t) = Extracted a" for a
  proof (cases "\<forall>c\<in>set t. isWhiteSpace c")
    case True
    then have "t = [] \<or> length (trim t) = 0"
      unfolding blank_guard .
    with that show ?thesis
      by (simp add: analyzeEngagement_def)
  next
    case False
    then have nb: "\<exists>c\<in>set t. \<not> isWhiteSpace c" by blast
    from that have "a = extracted toLowerCase t"
      unfolding nonblank_result [OF nb] by simp
    with fin show ?thesis
      by (simp add: extracted_def)
  qed
  from pos hd ed fin zero res show ?thesis
    by blast
qed

theorem density_is_finite_witness:
  "length_words (analyzeLength []) = 0 \<and>
   hashtags_density (analyzeHashtags []) = Num 0 \<and>
   emojis_density (analyzeEmojis []) = Num 0 \<and>
   hashtags_density (analyzeHashtags (str ''#a b c'')) =
     Num (2345624805922133 / 70368744177664)"
proof -
  have h: "length_words (analyzeLength []) = 0"
    by (simp add: analyzeLength_words split_js_def)
  have f: "hashtags_found (analyzeHashtags (str ''#a b c'')) = 1"
    by (simp add: analyzeHashtags_def or_empty_match_tags str_def isWordChar_def Let_def)
  have p: "length (split_js isWhiteSpace (str ''#a b c'')) = 3"
    by (simp add: split_js_def str_def isWhiteSpace_def)
  have d: "hashtags_density (analyzeHashtags (str ''#a b c'')) =
             Num (2345624805922133 / 70368744177664)"
    using density_is_finite [of "str ''#a b c''" toLowerCaseASCII]
    unfolding f p by (simp add: third_as_percent)
  from density_is_finite [of "[]" toLowerCaseASCII] h d show ?thesis
    by blast
qed

subsection \<open>Hashtag and mention counts\<close>

text \<open>
  Claim C8. For every input text, \<open>analysis.hashtags.found\<close> is the number of occurrences
  of \<open>#\<close> followed by one or more word characters and \<open>analysis.hashtags.recommended\<close> is
  \<open>max(found, 3)\<close>; \<open>analysis.mentions.found\<close> is the number of occurrences of \<open>@\<close>
  followed by one or more word characters and \<open>analysis.mentions.recommended\<close> is
  \<open>max(found, 2)\<close>.
\<close>

theorem found_counts_tagged_words:
  "analysis_hashtags_found (analysis (analyzeEngagement toLowerCase t)) = count_tagged 0x23 t \<and>
   analysis_hashtags_recommended (analysis (analyzeEngagement toLowerCase t)) =
     max (count_tagged 0x23 t) 3 \<and>
   analysis_mentions_found (analysis (analyzeEngagement toLowerCase t)) = count_tagged 0x40 t \<and>
   analysis_mentions_recommended (analysis (analyzeEngagement toLowerCase t)) =
     max (count_tagged 0x40 t) 2"
proof (cases "\<forall>c\<in>set t. isWhiteSpace c")
  case True
  then have "t = [] \<or> length (trim t) = 0"
    unfolding blank_guard .
  then show ?thesis
    by (simp add: analyzeEngagement_def blank_count_tagged [OF True])
next
  case False
  then have nb: "\<exists>c\<in>set t. \<not> isWhiteSpace c" by blast
  have h: "hashtags_recommended (analyzeHashtags t) = max (hashtags_found (analyzeHashtags t)) 3"
    by (simp add: analyzeHashtags_def Let_def)
  have m: "mentions_recommended (analyzeMentions t) = max (mentions_found (analyzeMentions t)) 2"
    by (simp add: analyzeMentions_def Let_def)
  show ?thesis
    unfolding nonblank_result [OF nb]
    by (simp add: extracted_def h m hashtags_found_count mentions_found_count)
qed

theorem found_counts_tagged_words_witness:
  "count_tagged 0x23 (str ''#a @b #c'') = 2 \<and> count_tagged 0x40 (str ''#a @b #c'') = 1 \<and>
   analysis_hashtags_found (analysis (analyzeEngagement toLowerCaseASCII (str ''#a @b #c''))) = 2 \<and>
   analysis_hashtags_recommended
     (analysis (analyzeEngagement toLowerCaseASCII (str ''#a @b #c''))) = 3 \<and>
   analysis_mentions_found (analysis (analyzeEngagement toLowerCaseASCII (str ''#a @b #c''))) = 1 \<and>
   analysis_mentions_recommended
     (analysis (analyzeEngagement toLowerCaseASCII (str ''#a @b #c''))) = 2"
proof -
  have h: "count_tagged 0x23 (str ''#a @b #c'') = 2"
    by (simp add: count_tagged_pairs str_def isWordChar_def)
  have m: "count_tagged 0x40 (str ''#a @b #c'') = 1"
    by (simp add: count_tagged_pairs str_def isWordChar_def)
  from found_counts_tagged_words [of toLowerCaseASCII "str ''#a @b #c''"] show ?thesis
    unfolding h m by simp
qed

subsection \<open>Suggestions\<close>

text \<open>
  Claim C4. For every input that is neither empty nor all whitespace, the suggestions are
  those of the documented rules whose trigger holds on the extracted records, in the order
  of the rule table (hashtags, call to action, length, mentions, emojis, readability,
  sentiment); every rule carries its documented priority; the types of the suggestions
  follow the order of the rule groups with at most one suggestion for each group; and
  neither the two hashtag suggestions nor the two length suggestions occur together.
\<close>

theorem suggestions_follow_rules:
  assumes "\<exists>c\<in>set t. \<not> isWhiteSpace c"
  shows "suggestions (analyzeEngagement toLowerCase t) =
           map Advice (documented_suggestions (extracted toLowerCase t)) \<and>
         map (\<lambda>rule. sug_priority (snd rule)) documented_rules = documented_priorities \<and>
         subseq (map sug_type (documented_suggestions (extracted toLowerCase t))) rule_order \<and>
         \<not> (addHashtags \<in> set (documented_suggestions (extracted toLowerCase t)) \<and>
            reduceHashtags \<in> set (documented_suggestions (extracted toLowerCase t))) \<and>
         \<not> (shortenContent \<in> set (documented_suggestions (extracted toLowerCase t)) \<and>
            addContext \<in> set (documented_suggestions (extracted toLowerCase t)))"
proof -
  have inv: "cta_found (callToAction (extracted toLowerCase t)) \<longleftrightarrow>
             cta_strength (callToAction (extracted toLowerCase t)) \<noteq> StrengthNone"
    by (simp add: extracted_def cta_found_strength)
  have s: "suggestions (analyzeEngagement toLowerCase t) =
           map Advice (documented_suggestions (extracted toLowerCase t))"
    by (simp add: nonblank_result [OF assms] generateSuggestions_documented [OF inv])
  have p: "map (\<lambda>rule. sug_priority (snd rule)) documented_rules = documented_priorities"
    by (simp add: documented_rules_def documented_priorities_def addHashtags_def
          reduceHashtags_def addCallToAction_def strengthenCallToAction_def
          shortenContent_def addContext_def tagPeople_def addEmojis_def
          improveReadability_def engagingLanguage_def)
  have o: "subseq (map sug_type (documented_suggestions (extracted toLowerCase t))) rule_order"
    by (rule documented_types_in_order [OF inv])
  have d: "distinct rule_order"
    by (simp add: rule_order_def str_def)
  from o d have dt: "distinct (map sug_type (documented_suggestions (extracted toLowerCase t)))"
    by (rule subseq_distinct)
  have ne1: "addHashtags \<noteq> reduceHashtags"
    by (simp add: addHashtags_def reduceHashtags_def)
  have ne2: "shortenContent \<noteq> addContext"
    by (simp add: shortenContent_def addContext_def)
  have x1: "\<not> (addHashtags \<in> set (documented_suggestions (extracted toLowerCase t)) \<and>
            reduceHashtags \<in> set (documented_suggestions (extracted toLowerCase t)))"
    using dt ne1 suggestion_types(1,2) by (metis distinct_map inj_onD)
  have x2: "\<not> (shortenContent \<in> set (documented_suggestions (extracted toLowerCase t)) \<and>
            addContext \<in> set (documented_suggestions (extracted toLowerCase t)))"
    using dt ne2 suggestion_types(5,6) by (metis distinct_map inj_onD)
  from s p o x1 x2 show ?thesis
    by blast
qed

theorem suggestions_follow_rules_witness:
  "suggestions (analyzeEngagement toLowerCaseASCII (str ''Hi'')) =
     [Advice addHashtags, Advice addCallToAction, Advice addContext, Advice tagPeople,
      Advice addEmojis, Advice engagingLanguage]"
  using suggestions_follow_rules [OF Hi_nonblank, of toLowerCaseASCII]
  by (simp add: Hi_suggestions)

subsection \<open>The shape of the analysis object\<close>

text \<open>
  Claim C9, amended. For every input that is neither empty nor all whitespace, the analysis
  object of the result holds all seven feature records, each with its documented fields, and
  a documented readability level. For an empty or all-whitespace input it is the fixed
  object of six abbreviated records: no \<open>emojis\<close> record, two fields in each record
  (\<open>current\<close> and \<open>optimal\<close> for the length), and the readability level \<open>poor\<close>.
\<close>

theorem analysis_shape_by_branch:
  "((\<exists>c\<in>set t. \<not> isWhiteSpace c) \<longrightarrow>
      analysis (analyzeEngagement toLowerCase t) = Extracted (extracted toLowerCase t) \<and>
      analysis_shape (analysis (analyzeEngagement toLowerCase t)) = documented_shape \<and>
      documented_level (analysis_level (analysis (analyzeEngagement toLowerCase t)))) \<and>
   ((\<forall>c\<in>set t. isWhiteSpace c) \<longrightarrow>
      analysis_shape (analysis (analyzeEngagement toLowerCase t)) =
        [(''hashtags'', [''found'', ''recommended'']),
         (''mentions'', [''found'', ''recommended'']),
         (''callToAction'', [''found'', ''strength'']),
         (''length'', [''current'', ''optimal'']),
         (''readability'', [''score'', ''level'']),
         (''sentiment'', [''tone'', ''engagement''])] \<and>
      analysis_level (analysis (analyzeEngagement toLowerCase t)) = Poor)"
proof (intro conjI impI)
  assume nb: "\<exists>c\<in>set t. \<not> isWhiteSpace c"
  show "analysis (analyzeEngagement toLowerCase t) = Extracted (extracted toLowerCase t)"
    by (simp add: nonblank_result [OF nb])
  show "analysis_shape (analysis (analyzeEngagement toLowerCase t)) = documented_shape"
    by (simp add: nonblank_result [OF nb] documented_shape_def)
  show "documented_level (analysis_level (analysis (analyzeEngagement toLowerCase t)))"
    by (simp add: nonblank_result [OF nb] extracted_def readability_level_documented)
next
  assume b: "\<forall>c\<in>set t. isWhiteSpace c"
  then have g: "t = [] \<or> length (trim t) = 0"
    unfolding blank_guard .
  from g show "analysis_shape (analysis (analyzeEngagement toLowerCase t)) =
        [(''hashtags'', [''found'', ''recommended'']),
         (''mentions'', [''found'', ''recommended'']),
         (''callToAction'', [''found'', ''strength'']),
         (''length'', [''current'', ''optimal'']),
         (''readability'', [''score'', ''level'']),
         (''sentiment'', [''tone'', ''engagement''])]"
    by (simp add: analyzeEngagement_def)
  from g show "analysis_level (analysis (analyzeEngagement toLowerCase t)) = Poor"
    by (simp add: analyzeEngagement_def)
qed

theorem analysis_shape_by_branch_witness:
  "analysis_shape (analysis (analyzeEngagement toLowerCaseASCII (str ''Hi''))) =
     documented_shape \<and>
   isWhiteSpace 0x20 \<and>
   analysis_level (analysis (analyzeEngagement toLowerCaseASCII [0x20])) = Poor"
proof -
  have w: "isWhiteSpace 0x20"
    by (simp add: isWhiteSpace_def)
  then have b: "\<forall>c\<in>set [0x20]. isWhiteSpace c"
    by simp
  from analysis_shape_by_branch [of "str ''Hi''" toLowerCaseASCII]
    analysis_shape_by_branch [of "[0x20]" toLowerCaseASCII] Hi_nonblank b w
  show ?thesis
    by blast
qed

text \<open>
  Claim C9 as stated fails on the empty string: the analysis object returned for it has no
  \<open>emojis\<close> record, not the documented fields, and a level outside the documented ones.
\<close>

theorem empty_text_lacks_records:
  "''emojis'' \<notin> set (map fst (analysis_shape (analysis (analyzeEngagement toLowerCaseASCII [])))) \<and>
   analysis_shape (analysis (analyzeEngagement toLowerCaseASCII [])) \<noteq> documented_shape \<and>
   \<not> documented_level (analysis_level (analysis (analyzeEngagement toLowerCaseASCII [])))"
  by (simp add: analyzeEngagement_def documented_shape_def documented_level_def)

end
